theory Spec2Isabelle
  imports Main "HOL-Library.AList"
begin

section \<open>Bytes, strings and diagnostics\<close>

text \<open>
  The parser of \<^verbatim>\<open>parser/machine.go\<close> (generated by Ragel from
  \<^verbatim>\<open>parser/machine.go.rl\<close>) reads a byte slice. A byte is a \<^typ>\<open>char\<close>
  (eight bits), a byte slice and a Go string are a \<^typ>\<open>string\<close>; the numeric value
  of a byte, which the generated code compares with constants, is \<open>of_char\<close>.
\<close>

definition ColumnPositionTemplate :: string where
  "ColumnPositionTemplate = '': col=%02d''"

definition ErrType :: string where
  "ErrType = ''illegal '%s' character in commit message type''"

definition ErrTypeIncomplete :: string where
  "ErrTypeIncomplete = ''incomplete commit message type after '%s' character''"

definition ErrColon :: string where
  "ErrColon = ''expecting colon (':') character, got '%s' character''"

definition ErrScope :: string where
  "ErrScope = ''illegal '%s' character in scope''"

definition ErrScopeIncomplete :: string where
  "ErrScopeIncomplete =
     ''expecting closing parentheses (')') character, got early exit after '%s' character''"

definition ErrEmpty :: string where
  "ErrEmpty = ''empty input''"

definition ErrEarly :: string where
  "ErrEarly = ''early exit after '%s' character''"

definition ErrDescriptionInit :: string where
  "ErrDescriptionInit =
     ''expecting at least one white-space (' ') character, got '%s' character''"

definition ErrDescription :: string where
  "ErrDescription = ''expecting a description text (without newlines) after '%s' character''"

definition ErrNewline :: string where
  "ErrNewline = ''illegal newline''"

definition ErrMissingBlankLineAtBeginning :: string where
  "ErrMissingBlankLineAtBeginning = ''missing a blank line''"

definition ErrTrailer :: string where
  "ErrTrailer = ''illegal '%s' character in trailer''"

definition ErrTrailerIncomplete :: string where
  "ErrTrailerIncomplete = ''incomplete footer trailer after '%s' character''"

text \<open>
  \<^verbatim>\<open>fmt.Errorf\<close> is called with the verbs \<^verbatim>\<open>%s\<close> and \<^verbatim>\<open>%02d\<close> only.
  \<open>dec\<close> writes a natural number in decimal; \<open>fmt02d\<close> is \<^verbatim>\<open>%02d\<close>: at
  least two characters, padded with zeros on the left, the sign counted in the width.
\<close>

fun dec :: "nat \<Rightarrow> string" where
  "dec n = (if n < 10 then [''0123456789'' ! n]
            else dec (n div 10) @ [''0123456789'' ! (n mod 10)])"

declare dec.simps [simp del]

definition pad0 :: "nat \<Rightarrow> string \<Rightarrow> string" where
  "pad0 w ds = replicate (w - length ds) (CHR ''0'') @ ds"

definition fmt02d :: "int \<Rightarrow> string" where
  "fmt02d n = (if n < 0 then CHR ''-'' # pad0 1 (dec (nat (- n))) else pad0 2 (dec (nat n)))"

datatype arg = S string | D int

text \<open>
  The formatter: \<^verbatim>\<open>%s\<close> takes a string operand, \<^verbatim>\<open>%02d\<close> an integer one. A
  verb whose operand is missing or of the other kind is copied through; no call of this
  file has one.
\<close>

function Sprintf :: "string \<Rightarrow> arg list \<Rightarrow> string" where
  "Sprintf [] args = []"
| "Sprintf (c # fs) args =
     (if c = CHR ''%'' \<and> take 1 fs = ''s'' then
        (case args of
           S x # rest \<Rightarrow> x @ Sprintf (drop 1 fs) rest
         | _ \<Rightarrow> c # Sprintf fs args)
      else if c = CHR ''%'' \<and> take 3 fs = ''02d'' then
        (case args of
           D n # rest \<Rightarrow> fmt02d n @ Sprintf (drop 3 fs) rest
         | _ \<Rightarrow> c # Sprintf fs args)
      else c # Sprintf fs args)"
  by pat_completeness auto
termination
  by (relation "measure (\<lambda>(fs, args). length fs)") auto

text \<open>
  \<^verbatim>\<open>string(b)\<close> of a byte \<open>b\<close> is the UTF-8 encoding of the code point \<open>b\<close>: the
  byte itself below 128, two bytes from 128 on.
\<close>

definition string_of_byte :: "char \<Rightarrow> string" where
  "string_of_byte c =
     (let n = (of_char c :: nat)
      in if n < 128 then [c] else [char_of (192 + n div 64), char_of (128 + n mod 64)])"

text \<open>
  \<^verbatim>\<open>bytes.ToLower\<close> on ASCII bytes: the letters \<open>A\<close> to \<open>Z\<close> move to \<open>a\<close>
  to \<open>z\<close>. The only caller passes a trailer token, which the grammar keeps within
  ASCII letters, digits, dash and space.
\<close>

definition lower_byte :: "char \<Rightarrow> char" where
  "lower_byte c =
     (let n = (of_char c :: nat) in if 65 \<le> n \<and> n \<le> 90 then char_of (n + 32) else c)"

definition ToLower :: "string \<Rightarrow> string" where
  "ToLower bs = map lower_byte bs"

section \<open>The machine and the record it fills\<close>

text \<open>
  Modelled from the spec: the root package \<^verbatim>\<open>conventionalcommits\<close> (the
  \<^verbatim>\<open>TypeConfig\<close> enumeration, the \<^verbatim>\<open>Message\<close> interface) and the record
  builder of the parser package (\<^verbatim>\<open>conventionalCommit\<close> with \<^verbatim>\<open>minimal()\<close> and
  \<^verbatim>\<open>export()\<close>) are not among the source files. The spec gives three dialects, a
  record of type, scope, exclamation flag, description, body and footers, and
  \<^verbatim>\<open>minimal()\<close> as "type and description both non-empty". The footers are a Go map from
  key to a list of values: an association list with distinct keys here, so that
  \<^verbatim>\<open>len(footers) == 0\<close> is emptiness of the list. \<open>export\<close> hands the fields out
  as they are.
\<close>

datatype TypeConfig = TypesMinimal | TypesConventional | TypesFreeForm

record conventionalCommit =
  c_type :: string
  descr :: string
  scope :: string
  exclamation :: bool
  body :: string
  footers :: "(string \<times> string list) list"

definition minimal :: "conventionalCommit \<Rightarrow> bool" where
  "minimal c = (c_type c \<noteq> [] \<and> descr c \<noteq> [])"

definition export :: "conventionalCommit \<Rightarrow> conventionalCommit" where
  "export c = c"

definition footers_get :: "(string \<times> string list) list \<Rightarrow> string \<Rightarrow> string list" where
  "footers_get fs k = (case map_of fs k of None \<Rightarrow> [] | Some vs \<Rightarrow> vs)"

definition footers_append ::
  "(string \<times> string list) list \<Rightarrow> string \<Rightarrow> string \<Rightarrow> (string \<times> string list) list" where
  "footers_append fs k v = AList.update k (footers_get fs k @ [v]) fs"

text \<open>
  The \<^verbatim>\<open>machine\<close> struct. The cursors are Go \<^verbatim>\<open>int\<close>s (64 bits; they stay
  within the length of the input, so no arithmetic wraps) and are integers here, since
  the code computes \<^verbatim>\<open>m.pb - 1\<close> and \<^verbatim>\<open>m.p - 1\<close>. \<^verbatim>\<open>countNewlines\<close> is
  only reset to zero, incremented, and decremented while positive: a natural number. The
  logger is the list of the lines \<^verbatim>\<open>Errorln\<close> has been given, \<open>None\<close> when no logger
  is attached; the info and debug lines are not kept.
\<close>

record machine =
  data :: string
  cs :: nat
  p :: int
  pe :: int
  eof :: int
  pb :: int
  err :: "string option"
  bestEffort :: bool
  typeConfig :: TypeConfig
  logger :: "string list option"
  currentFooterKey :: string
  countNewlines :: nat
  lastNewline :: int

text \<open>
  Inside \<^verbatim>\<open>Parse\<close> the machine runs beside the local \<^verbatim>\<open>output\<close>: a frame is
  the machine extended with that record (\<open>outp\<close>; \<open>output\<close> is a keyword of
  the theory language).
\<close>

record frame = machine +
  outp :: conventionalCommit

text \<open>
  What a block of the generated code does: it falls through to the next statement
  (\<open>Next\<close>), jumps to the label \<^verbatim>\<open>stN\<close> (\<open>Goto N\<close>), leaves through
  \<^verbatim>\<open>_out\<close> (\<open>Out\<close>), or panics on an index or a slice out of range (\<open>Panic\<close>).
\<close>

datatype 'a flow = Panic | Next 'a | Goto nat 'a | Out 'a

fun seq :: "('a \<Rightarrow> 'a flow) list \<Rightarrow> 'a \<Rightarrow> 'a flow" where
  "seq [] s = Next s"
| "seq (a # as) s = (case a s of Next s' \<Rightarrow> seq as s' | r \<Rightarrow> r)"

definition byte_at :: "'a machine_scheme \<Rightarrow> int \<Rightarrow> char option" where
  "byte_at m i = (if 0 \<le> i \<and> i < int (length (data m)) then Some (data m ! nat i) else None)"

text \<open>
  \<^verbatim>\<open>m.text()\<close> is \<^verbatim>\<open>m.data[m.pb:m.p]\<close>; the slice expression panics unless
  \<open>0 \<le> pb \<le> p\<close> and \<open>p\<close> is within the slice (its length here: the capacity
  of the caller's slice is not known to the parser).
\<close>

definition text_of :: "'a machine_scheme \<Rightarrow> string option" where
  "text_of m =
     (if 0 \<le> pb m \<and> pb m \<le> p m \<and> p m \<le> int (length (data m))
      then Some (take (nat (p m - pb m)) (drop (nat (pb m)) (data m)))
      else None)"

definition emitError :: "string \<Rightarrow> arg list \<Rightarrow> 'a machine_scheme \<Rightarrow> string \<times> 'a machine_scheme" where
  "emitError tmpl args m =
     (let e = Sprintf (tmpl @ ColumnPositionTemplate) args
      in (e, case logger m of None \<Rightarrow> m | Some ls \<Rightarrow> m\<lparr>logger := Some (ls @ [e])\<rparr>))"

definition emitErrorWithoutCharacter ::
  "string \<Rightarrow> 'a machine_scheme \<Rightarrow> (string \<times> 'a machine_scheme) option" where
  "emitErrorWithoutCharacter tmpl m = Some (emitError tmpl [D (p m)] m)"

definition emitErrorOnCurrentCharacter ::
  "string \<Rightarrow> 'a machine_scheme \<Rightarrow> (string \<times> 'a machine_scheme) option" where
  "emitErrorOnCurrentCharacter tmpl m =
     (case byte_at m (p m) of
        None \<Rightarrow> None
      | Some c \<Rightarrow> Some (emitError tmpl [S (string_of_byte c), D (p m)] m))"

definition emitErrorOnPreviousCharacter ::
  "string \<Rightarrow> 'a machine_scheme \<Rightarrow> (string \<times> 'a machine_scheme) option" where
  "emitErrorOnPreviousCharacter tmpl m =
     (case byte_at m (p m - 1) of
        None \<Rightarrow> None
      | Some c \<Rightarrow> Some (emitError tmpl [S (string_of_byte c), D (p m)] m))"

text \<open>\<^verbatim>\<open>m.err = m.emitError...(...)\<close>: the assignment, a panic when the call panics.\<close>

definition set_err :: "(string \<times> frame) option \<Rightarrow> frame flow" where
  "set_err r = (case r of None \<Rightarrow> Panic | Some (e, m) \<Rightarrow> Next (m\<lparr>err := Some e\<rparr>))"


section \<open>The actions of the grammar\<close>

text \<open>
  The actions of \<^verbatim>\<open>machine.go.rl\<close>, which Ragel copies into the transitions of
  \<^verbatim>\<open>machine.go\<close>. The calls of \<^verbatim>\<open>emitInfo\<close> and \<^verbatim>\<open>emitDebug\<close> only write
  to the logger and are left out.
\<close>

definition mark :: "frame \<Rightarrow> frame flow" where
  "mark s = Next (s\<lparr>pb := p s\<rparr>)"

definition err_empty :: "frame \<Rightarrow> frame flow" where
  "err_empty s = set_err (emitErrorWithoutCharacter ErrEmpty s)"

definition err_type :: "frame \<Rightarrow> frame flow" where
  "err_type s =
     (if pe s > 0 then
        (if p s \<noteq> pe s then set_err (emitErrorOnCurrentCharacter ErrType s)
         else set_err (emitErrorOnPreviousCharacter ErrTypeIncomplete s))
      else Next s)"

definition err_malformed_scope :: "frame \<Rightarrow> frame flow" where
  "err_malformed_scope s =
     (if p s < pe s then set_err (emitErrorOnCurrentCharacter ErrScope s) else Next s)"

definition err_malformed_scope_closing :: "frame \<Rightarrow> frame flow" where
  "err_malformed_scope_closing s = set_err (emitErrorOnPreviousCharacter ErrScopeIncomplete s)"

definition err_colon :: "frame \<Rightarrow> frame flow" where
  "err_colon s =
     (if err s = None then set_err (emitErrorOnCurrentCharacter ErrColon s) else Next s)"

definition err_description_init :: "frame \<Rightarrow> frame flow" where
  "err_description_init s =
     (if err s = None then set_err (emitErrorOnCurrentCharacter ErrDescriptionInit s)
      else Next s)"

definition err_description :: "frame \<Rightarrow> frame flow" where
  "err_description s =
     (if p s < pe s then
        (case byte_at s (p s) of
           None \<Rightarrow> Panic
         | Some c \<Rightarrow>
             if (of_char c :: nat) = 10
             then set_err (Some (emitError ErrNewline [D (p s + 1)] s))
             else set_err (emitErrorOnPreviousCharacter ErrDescription s))
      else set_err (emitErrorOnPreviousCharacter ErrDescription s))"

definition check_early_exit :: "frame \<Rightarrow> frame flow" where
  "check_early_exit s =
     (if p s + 1 = pe s then set_err (emitErrorOnCurrentCharacter ErrEarly s) else Next s)"

definition err_begin_blank_line :: "frame \<Rightarrow> frame flow" where
  "err_begin_blank_line s =
     set_err (emitErrorWithoutCharacter ErrMissingBlankLineAtBeginning s)"

definition set_type :: "frame \<Rightarrow> frame flow" where
  "set_type s =
     (case text_of s of
        None \<Rightarrow> Panic
      | Some t \<Rightarrow> Next (s\<lparr>outp := (outp s)\<lparr>c_type := t\<rparr>\<rparr>))"

definition set_scope :: "frame \<Rightarrow> frame flow" where
  "set_scope s =
     (case text_of s of
        None \<Rightarrow> Panic
      | Some t \<Rightarrow> Next (s\<lparr>outp := (outp s)\<lparr>scope := t\<rparr>\<rparr>))"

definition set_description :: "frame \<Rightarrow> frame flow" where
  "set_description s =
     (case text_of s of
        None \<Rightarrow> Panic
      | Some t \<Rightarrow> Next (s\<lparr>outp := (outp s)\<lparr>descr := t\<rparr>\<rparr>))"

definition set_exclamation :: "frame \<Rightarrow> frame flow" where
  "set_exclamation s = Next (s\<lparr>outp := (outp s)\<lparr>exclamation := True\<rparr>\<rparr>)"

definition set_body_blank_line :: "frame \<Rightarrow> frame flow" where
  "set_body_blank_line s = Next s"

definition set_current_footer_key :: "frame \<Rightarrow> frame flow" where
  "set_current_footer_key s =
     (case text_of s of
        None \<Rightarrow> Panic
      | Some t \<Rightarrow>
          Next (s\<lparr>currentFooterKey :=
                   (if ToLower t = ''breaking change'' then ''breaking-change''
                    else ToLower t)\<rparr>))"

definition set_footer :: "frame \<Rightarrow> frame flow" where
  "set_footer s =
     (case text_of s of
        None \<Rightarrow> Panic
      | Some t \<Rightarrow>
          Next (s\<lparr>outp := (outp s)\<lparr>footers :=
                   footers_append (footers (outp s)) (currentFooterKey s) t\<rparr>\<rparr>))"

definition count_nl :: "frame \<Rightarrow> frame flow" where
  "count_nl s = Next (s\<lparr>countNewlines := countNewlines s + 1, lastNewline := p s\<rparr>)"

text \<open>
  The loop of \<^verbatim>\<open>append_body\<close> adds one newline to the body for each counted
  newline and leaves the counter at zero.
\<close>

fun append_newlines :: "nat \<Rightarrow> string \<Rightarrow> string" where
  "append_newlines 0 b = b"
| "append_newlines (Suc n) b = append_newlines n (b @ [CHR 0x0A])"

definition append_body :: "frame \<Rightarrow> frame flow" where
  "append_body s =
     (case text_of s of
        None \<Rightarrow> Panic
      | Some t \<Rightarrow>
          Next (s\<lparr>countNewlines := 0,
                  outp := (outp s)\<lparr>body :=
                    append_newlines (countNewlines s) (body (outp s)) @ t\<rparr>\<rparr>))"

definition append_body_before_blank_line :: "frame \<Rightarrow> frame flow" where
  "append_body_before_blank_line s =
     (let s1 = s\<lparr>pb := pb s + 1, p := p s + 1\<rparr>
      in case text_of s1 of
           None \<Rightarrow> Panic
         | Some t \<Rightarrow>
             Next (s1\<lparr>p := p s1 - 1, outp := (outp s1)\<lparr>body := body (outp s1) @ t\<rparr>\<rparr>))"

definition start_trailer_parsing :: "frame \<Rightarrow> frame flow" where
  "start_trailer_parsing s = Goto 87 s"

definition complete_trailer_parsing :: "frame \<Rightarrow> frame flow" where
  "complete_trailer_parsing s = Goto 33 s"

definition rewind :: "frame \<Rightarrow> frame flow" where
  "rewind s =
     (if footers (outp s) = [] then
        (let s1 = (if countNewlines s > 0 then s\<lparr>pb := lastNewline s + 1\<rparr> else s)
         in Goto 34 (s1\<lparr>p := pb s1 - 1\<rparr>))
      else if p s \<noteq> pe s then set_err (emitErrorOnCurrentCharacter ErrTrailer s)
      else set_err (emitErrorOnPreviousCharacter ErrTrailerIncomplete s))"

text \<open>
  The guard \<^verbatim>\<open>blank_line_ahead\<close>; Go's \<^verbatim>\<open>&&\<close> reads \<^verbatim>\<open>m.data[m.p+1]\<close> only when
  \<^verbatim>\<open>m.p+2 < m.pe\<close>, and \<^verbatim>\<open>m.data[m.p+2]\<close> only when the first is a newline.
\<close>

definition blank_line_ahead :: "frame \<Rightarrow> bool option" where
  "blank_line_ahead s =
     (if p s + 2 < pe s then
        (case byte_at s (p s + 1) of
           None \<Rightarrow> None
         | Some c1 \<Rightarrow>
             if (of_char c1 :: nat) = 10 then
               (case byte_at s (p s + 2) of
                  None \<Rightarrow> None
                | Some c2 \<Rightarrow> Some ((of_char c2 :: nat) = 10))
             else Some False)
      else Some False)"

datatype action =
    Mark | Err_empty | Err_type | Err_malformed_scope | Err_malformed_scope_closing
  | Err_colon | Err_description_init | Err_description | Check_early_exit
  | Err_begin_blank_line | Set_type | Set_scope | Set_description | Set_exclamation
  | Set_body_blank_line | Set_current_footer_key | Set_footer | Count_nl | Append_body
  | Append_body_before_blank_line | Start_trailer_parsing | Complete_trailer_parsing
  | Rewind

fun exec_action :: "action \<Rightarrow> frame \<Rightarrow> frame flow" where
  "exec_action Mark = mark"
| "exec_action Err_empty = err_empty"
| "exec_action Err_type = err_type"
| "exec_action Err_malformed_scope = err_malformed_scope"
| "exec_action Err_malformed_scope_closing = err_malformed_scope_closing"
| "exec_action Err_colon = err_colon"
| "exec_action Err_description_init = err_description_init"
| "exec_action Err_description = err_description"
| "exec_action Check_early_exit = check_early_exit"
| "exec_action Err_begin_blank_line = err_begin_blank_line"
| "exec_action Set_type = set_type"
| "exec_action Set_scope = set_scope"
| "exec_action Set_description = set_description"
| "exec_action Set_exclamation = set_exclamation"
| "exec_action Set_body_blank_line = set_body_blank_line"
| "exec_action Set_current_footer_key = set_current_footer_key"
| "exec_action Set_footer = set_footer"
| "exec_action Count_nl = count_nl"
| "exec_action Append_body = append_body"
| "exec_action Append_body_before_blank_line = append_body_before_blank_line"
| "exec_action Start_trailer_parsing = start_trailer_parsing"
| "exec_action Complete_trailer_parsing = complete_trailer_parsing"
| "exec_action Rewind = rewind"

section \<open>The transitions of the generated code\<close>

text \<open>
  A transition label \<^verbatim>\<open>trN\<close> of \<^verbatim>\<open>machine.go\<close> is the actions Ragel copied under it
  and the \<^verbatim>\<open>goto stM\<close> that ends it: the pair of the action list and \<open>M\<close>. The target
  \<open>0\<close> is \<^verbatim>\<open>st0\<close>, the error state. An action that jumps
  (\<^verbatim>\<open>start_trailer_parsing\<close>, \<^verbatim>\<open>complete_trailer_parsing\<close>, \<^verbatim>\<open>rewind\<close>) leaves the
  \<^verbatim>\<open>goto\<close> after it unreached, as in the Go text. \<open>goto M\<close> is a bare
  \<^verbatim>\<open>goto stM\<close>.
\<close>

type_synonym trans = "action list \<times> nat"

definition goto :: "nat \<Rightarrow> trans" where
  "goto n = ([], n)"

definition tr0 :: trans where
  "tr0 = ([Err_type], 0)"

definition tr1 :: trans where
  "tr1 = ([Mark], 2)"

definition tr6 :: trans where
  "tr6 = ([Err_colon], 0)"

definition tr7 :: trans where
  "tr7 = ([Set_exclamation], 6)"

definition tr10 :: trans where
  "tr10 = ([Err_description_init], 0)"

definition tr12 :: trans where
  "tr12 = ([Mark], 85)"

definition tr13 :: trans where
  "tr13 = ([Err_description], 0)"

definition tr14 :: trans where
  "tr14 = ([Err_begin_blank_line], 0)"

definition tr15 :: trans where
  "tr15 = ([Set_body_blank_line, Start_trailer_parsing], 86)"

definition tr16 :: trans where
  "tr16 = ([Err_malformed_scope], 0)"

definition tr17 :: trans where
  "tr17 = ([Mark], 11)"

definition tr18 :: trans where
  "tr18 = ([Mark, Set_scope], 12)"

definition tr20 :: trans where
  "tr20 = ([Set_scope], 12)"

definition tr21 :: trans where
  "tr21 = ([Rewind], 0)"

definition tr22 :: trans where
  "tr22 = ([Set_current_footer_key], 15)"

definition tr25 :: trans where
  "tr25 = ([Set_current_footer_key], 17)"

definition tr26 :: trans where
  "tr26 = ([Complete_trailer_parsing], 88)"

definition tr27 :: trans where
  "tr27 = ([Complete_trailer_parsing], 89)"

definition tr35 :: trans where
  "tr35 = ([Set_current_footer_key], 26)"

definition tr42 :: trans where
  "tr42 = ([Mark], 90)"

definition tr44 :: trans where
  "tr44 = ([Append_body, Start_trailer_parsing], 0)"

definition tr45 :: trans where
  "tr45 = ([Mark], 92)"

definition tr46 :: trans where
  "tr46 = ([Mark], 36)"

definition tr47 :: trans where
  "tr47 = ([Mark], 48)"

definition tr48 :: trans where
  "tr48 = ([Mark], 52)"

definition tr49 :: trans where
  "tr49 = ([Mark], 55)"

definition tr50 :: trans where
  "tr50 = ([Mark], 59)"

definition tr51 :: trans where
  "tr51 = ([Mark], 62)"

definition tr52 :: trans where
  "tr52 = ([Mark], 71)"

definition tr53 :: trans where
  "tr53 = ([Mark], 74)"

definition tr58 :: trans where
  "tr58 = ([Set_exclamation], 41)"

definition tr62 :: trans where
  "tr62 = ([Mark], 93)"

definition tr63 :: trans where
  "tr63 = ([Set_body_blank_line, Start_trailer_parsing], 94)"

definition tr64 :: trans where
  "tr64 = ([Mark], 46)"

definition tr65 :: trans where
  "tr65 = ([Mark, Set_scope], 47)"

definition tr67 :: trans where
  "tr67 = ([Set_scope], 47)"

definition tr89 :: trans where
  "tr89 = ([Mark], 77)"

definition tr91 :: trans where
  "tr91 = ([Set_exclamation], 78)"

definition tr95 :: trans where
  "tr95 = ([Mark], 95)"

definition tr96 :: trans where
  "tr96 = ([Set_body_blank_line, Start_trailer_parsing], 96)"

definition tr97 :: trans where
  "tr97 = ([Mark], 83)"

definition tr98 :: trans where
  "tr98 = ([Mark, Set_scope], 84)"

definition tr100 :: trans where
  "tr100 = ([Set_scope], 84)"

definition tr102 :: trans where
  "tr102 = ([Set_description], 9)"

definition tr103 :: trans where
  "tr103 = ([Count_nl], 87)"

definition tr104 :: trans where
  "tr104 = ([Mark], 14)"

definition tr105 :: trans where
  "tr105 = ([Mark], 18)"

definition tr106 :: trans where
  "tr106 = ([Set_footer, Count_nl, Start_trailer_parsing], 91)"

definition tr108 :: trans where
  "tr108 = ([Count_nl, Start_trailer_parsing], 91)"

definition tr109 :: trans where
  "tr109 = ([Append_body, Append_body_before_blank_line, Start_trailer_parsing], 0)"

definition tr110 :: trans where
  "tr110 = ([Append_body, Mark], 92)"

definition tr112 :: trans where
  "tr112 = ([Set_description], 44)"

definition tr114 :: trans where
  "tr114 = ([Set_description], 81)"

definition stCase1 :: "nat \<Rightarrow> trans" where
  "stCase1 b =
    (if b = 70 then tr1 else if b = 102 then tr1 else tr0)"

definition stCase2 :: "nat \<Rightarrow> trans" where
  "stCase2 b =
    (if b = 69 then goto 3 else if b = 73 then goto 13 else if b = 101 then goto 3 else
     if b = 105 then goto 13 else tr0)"

definition stCase3 :: "nat \<Rightarrow> trans" where
  "stCase3 b =
    (if b = 65 then goto 4 else if b = 97 then goto 4 else tr0)"

definition stCase4 :: "nat \<Rightarrow> trans" where
  "stCase4 b =
    (if b = 84 then goto 5 else if b = 116 then goto 5 else tr0)"

definition stCase5 :: "nat \<Rightarrow> trans" where
  "stCase5 b =
    (if b = 33 then tr7 else if b = 40 then goto 10 else if b = 58 then goto 7 else tr6)"

definition stCase6 :: "nat \<Rightarrow> trans" where
  "stCase6 b =
    (if b = 58 then goto 7 else tr6)"

definition stCase7 :: "nat \<Rightarrow> trans" where
  "stCase7 b =
    (if b = 32 then goto 8 else tr10)"

definition stCase8 :: "nat \<Rightarrow> trans" where
  "stCase8 b =
    (if b = 10 then tr13 else if b = 32 then goto 8 else tr12)"

definition stCase85 :: "nat \<Rightarrow> trans" where
  "stCase85 b =
    (if b = 10 then tr102 else goto 85)"

definition stCase9 :: "nat \<Rightarrow> trans" where
  "stCase9 b =
    (if b = 10 then tr15 else tr14)"

definition stCase10 :: "nat \<Rightarrow> trans" where
  "stCase10 b =
    (if b = 41 then tr18 else if b > 39 then (if 42 \<le> b \<and> b \<le> 126 then tr17 else
     tr16) else if b \<ge> 32 then tr17 else tr16)"

definition stCase11 :: "nat \<Rightarrow> trans" where
  "stCase11 b =
    (if b = 41 then tr20 else
     if b > 39 then (if 42 \<le> b \<and> b \<le> 126 then goto 11 else tr16) else
     if b \<ge> 32 then goto 11 else tr16)"

definition stCase12 :: "nat \<Rightarrow> trans" where
  "stCase12 b =
    (if b = 33 then tr7 else if b = 58 then goto 7 else tr6)"

definition stCase13 :: "nat \<Rightarrow> trans" where
  "stCase13 b =
    (if b = 88 then goto 5 else if b = 120 then goto 5 else tr0)"

definition stCase33 :: "nat \<Rightarrow> trans" where
  "stCase33 b =
    (if 32 \<le> b \<and> b \<le> 126 then tr42 else goto 0)"

definition stCase90 :: "nat \<Rightarrow> trans" where
  "stCase90 b =
    (if b = 10 then tr106 else if 32 \<le> b \<and> b \<le> 126 then goto 90 else goto 0)"

definition stCase91 :: "nat \<Rightarrow> trans" where
  "stCase91 b =
    (if b = 10 then tr108 else goto 0)"

definition stCase35 :: "nat \<Rightarrow> trans" where
  "stCase35 b =
    (if b = 66 then tr46 else if b = 67 then tr47 else if b = 68 then tr48 else
     if b = 70 then tr49 else if b = 80 then tr50 else if b = 82 then tr51 else
     if b = 83 then tr52 else if b = 84 then tr53 else if b = 98 then tr46 else
     if b = 99 then tr47 else if b = 100 then tr48 else if b = 102 then tr49 else
     if b = 112 then tr50 else if b = 114 then tr51 else if b = 115 then tr52 else
     if b = 116 then tr53 else tr0)"

definition stCase36 :: "nat \<Rightarrow> trans" where
  "stCase36 b =
    (if b = 85 then goto 37 else if b = 117 then goto 37 else tr0)"

definition stCase37 :: "nat \<Rightarrow> trans" where
  "stCase37 b =
    (if b = 73 then goto 38 else if b = 105 then goto 38 else tr0)"

definition stCase38 :: "nat \<Rightarrow> trans" where
  "stCase38 b =
    (if b = 76 then goto 39 else if b = 108 then goto 39 else tr0)"

definition stCase39 :: "nat \<Rightarrow> trans" where
  "stCase39 b =
    (if b = 68 then goto 40 else if b = 100 then goto 40 else tr0)"

definition stCase40 :: "nat \<Rightarrow> trans" where
  "stCase40 b =
    (if b = 33 then tr58 else if b = 40 then goto 45 else if b = 58 then goto 42 else tr6)"

definition stCase41 :: "nat \<Rightarrow> trans" where
  "stCase41 b =
    (if b = 58 then goto 42 else tr6)"

definition stCase42 :: "nat \<Rightarrow> trans" where
  "stCase42 b =
    (if b = 32 then goto 43 else tr10)"

definition stCase43 :: "nat \<Rightarrow> trans" where
  "stCase43 b =
    (if b = 10 then tr13 else if b = 32 then goto 43 else tr62)"

definition stCase93 :: "nat \<Rightarrow> trans" where
  "stCase93 b =
    (if b = 10 then tr112 else goto 93)"

definition stCase44 :: "nat \<Rightarrow> trans" where
  "stCase44 b =
    (if b = 10 then tr63 else tr14)"

definition stCase45 :: "nat \<Rightarrow> trans" where
  "stCase45 b =
    (if b = 41 then tr65 else if b > 39 then (if 42 \<le> b \<and> b \<le> 126 then tr64 else
     tr16) else if b \<ge> 32 then tr64 else tr16)"

definition stCase46 :: "nat \<Rightarrow> trans" where
  "stCase46 b =
    (if b = 41 then tr67 else
     if b > 39 then (if 42 \<le> b \<and> b \<le> 126 then goto 46 else tr16) else
     if b \<ge> 32 then goto 46 else tr16)"

definition stCase47 :: "nat \<Rightarrow> trans" where
  "stCase47 b =
    (if b = 33 then tr58 else if b = 58 then goto 42 else tr6)"

definition stCase48 :: "nat \<Rightarrow> trans" where
  "stCase48 b =
    (if b = 72 then goto 49 else if b = 73 then goto 40 else if b = 104 then goto 49 else
     if b = 105 then goto 40 else tr0)"

definition stCase49 :: "nat \<Rightarrow> trans" where
  "stCase49 b =
    (if b = 79 then goto 50 else if b = 111 then goto 50 else tr0)"

definition stCase50 :: "nat \<Rightarrow> trans" where
  "stCase50 b =
    (if b = 82 then goto 51 else if b = 114 then goto 51 else tr0)"

definition stCase51 :: "nat \<Rightarrow> trans" where
  "stCase51 b =
    (if b = 69 then goto 40 else if b = 101 then goto 40 else tr0)"

definition stCase52 :: "nat \<Rightarrow> trans" where
  "stCase52 b =
    (if b = 79 then goto 53 else if b = 111 then goto 53 else tr0)"

definition stCase53 :: "nat \<Rightarrow> trans" where
  "stCase53 b =
    (if b = 67 then goto 54 else if b = 99 then goto 54 else tr0)"

definition stCase54 :: "nat \<Rightarrow> trans" where
  "stCase54 b =
    (if b = 83 then goto 40 else if b = 115 then goto 40 else tr0)"

definition stCase55 :: "nat \<Rightarrow> trans" where
  "stCase55 b =
    (if b = 69 then goto 56 else if b = 73 then goto 58 else if b = 101 then goto 56 else
     if b = 105 then goto 58 else tr0)"

definition stCase56 :: "nat \<Rightarrow> trans" where
  "stCase56 b =
    (if b = 65 then goto 57 else if b = 97 then goto 57 else tr0)"

definition stCase57 :: "nat \<Rightarrow> trans" where
  "stCase57 b =
    (if b = 84 then goto 40 else if b = 116 then goto 40 else tr0)"

definition stCase58 :: "nat \<Rightarrow> trans" where
  "stCase58 b =
    (if b = 88 then goto 40 else if b = 120 then goto 40 else tr0)"

definition stCase59 :: "nat \<Rightarrow> trans" where
  "stCase59 b =
    (if b = 69 then goto 60 else if b = 101 then goto 60 else tr0)"

definition stCase60 :: "nat \<Rightarrow> trans" where
  "stCase60 b =
    (if b = 82 then goto 61 else if b = 114 then goto 61 else tr0)"

definition stCase61 :: "nat \<Rightarrow> trans" where
  "stCase61 b =
    (if b = 70 then goto 40 else if b = 102 then goto 40 else tr0)"

definition stCase62 :: "nat \<Rightarrow> trans" where
  "stCase62 b =
    (if b = 69 then goto 63 else if b = 101 then goto 63 else tr0)"

definition stCase63 :: "nat \<Rightarrow> trans" where
  "stCase63 b =
    (if b = 70 then goto 64 else if b = 86 then goto 69 else if b = 102 then goto 64 else
     if b = 118 then goto 69 else tr0)"

definition stCase64 :: "nat \<Rightarrow> trans" where
  "stCase64 b =
    (if b = 65 then goto 65 else if b = 97 then goto 65 else tr0)"

definition stCase65 :: "nat \<Rightarrow> trans" where
  "stCase65 b =
    (if b = 67 then goto 66 else if b = 99 then goto 66 else tr0)"

definition stCase66 :: "nat \<Rightarrow> trans" where
  "stCase66 b =
    (if b = 84 then goto 67 else if b = 116 then goto 67 else tr0)"

definition stCase67 :: "nat \<Rightarrow> trans" where
  "stCase67 b =
    (if b = 79 then goto 68 else if b = 111 then goto 68 else tr0)"

definition stCase68 :: "nat \<Rightarrow> trans" where
  "stCase68 b =
    (if b = 82 then goto 40 else if b = 114 then goto 40 else tr0)"

definition stCase69 :: "nat \<Rightarrow> trans" where
  "stCase69 b =
    (if b = 69 then goto 70 else if b = 101 then goto 70 else tr0)"

definition stCase70 :: "nat \<Rightarrow> trans" where
  "stCase70 b =
    (if b = 82 then goto 57 else if b = 114 then goto 57 else tr0)"

definition stCase71 :: "nat \<Rightarrow> trans" where
  "stCase71 b =
    (if b = 84 then goto 72 else if b = 116 then goto 72 else tr0)"

definition stCase72 :: "nat \<Rightarrow> trans" where
  "stCase72 b =
    (if b = 89 then goto 73 else if b = 121 then goto 73 else tr0)"

definition stCase73 :: "nat \<Rightarrow> trans" where
  "stCase73 b =
    (if b = 76 then goto 51 else if b = 108 then goto 51 else tr0)"

definition stCase74 :: "nat \<Rightarrow> trans" where
  "stCase74 b =
    (if b = 69 then goto 75 else if b = 101 then goto 75 else tr0)"

definition stCase75 :: "nat \<Rightarrow> trans" where
  "stCase75 b =
    (if b = 83 then goto 57 else if b = 115 then goto 57 else tr0)"

definition stCase76 :: "nat \<Rightarrow> trans" where
  "stCase76 b =
    (if 32 \<le> b \<and> b \<le> 126 then tr89 else tr0)"

definition stCase77 :: "nat \<Rightarrow> trans" where
  "stCase77 b =
    (if b = 33 then tr91 else if b = 40 then goto 82 else if b = 58 then goto 79 else
     if 32 \<le> b \<and> b \<le> 126 then goto 77 else tr6)"

definition stCase78 :: "nat \<Rightarrow> trans" where
  "stCase78 b =
    (if b = 58 then goto 79 else tr6)"

definition stCase79 :: "nat \<Rightarrow> trans" where
  "stCase79 b =
    (if b = 32 then goto 80 else tr10)"

definition stCase80 :: "nat \<Rightarrow> trans" where
  "stCase80 b =
    (if b = 10 then tr13 else if b = 32 then goto 80 else tr95)"

definition stCase95 :: "nat \<Rightarrow> trans" where
  "stCase95 b =
    (if b = 10 then tr114 else goto 95)"

definition stCase81 :: "nat \<Rightarrow> trans" where
  "stCase81 b =
    (if b = 10 then tr96 else tr14)"

definition stCase82 :: "nat \<Rightarrow> trans" where
  "stCase82 b =
    (if b = 41 then tr98 else if b > 39 then (if 42 \<le> b \<and> b \<le> 126 then tr97 else
     tr16) else if b \<ge> 32 then tr97 else tr16)"

definition stCase83 :: "nat \<Rightarrow> trans" where
  "stCase83 b =
    (if b = 41 then tr100 else
     if b > 39 then (if 42 \<le> b \<and> b \<le> 126 then goto 83 else tr16) else
     if b \<ge> 32 then goto 83 else tr16)"

definition stCase84 :: "nat \<Rightarrow> trans" where
  "stCase84 b =
    (if b = 33 then tr91 else if b = 58 then goto 79 else tr6)"

definition stCase87 :: "nat \<Rightarrow> trans" where
  "stCase87 b =
    (if b = 10 then tr103 else if b = 66 then tr105 else
     if b < 65 then (if 48 \<le> b \<and> b \<le> 57 then tr104 else tr21) else
     if b > 90 then (if 97 \<le> b \<and> b \<le> 122 then tr104 else tr21) else tr104)"

definition stCase14 :: "nat \<Rightarrow> trans" where
  "stCase14 b =
    (if b = 32 then tr22 else if b = 45 then goto 16 else if b = 58 then tr25 else
     if b < 65 then (if 48 \<le> b \<and> b \<le> 57 then goto 14 else tr21) else
     if b > 90 then (if 97 \<le> b \<and> b \<le> 122 then goto 14 else tr21) else goto 14)"

definition stCase15 :: "nat \<Rightarrow> trans" where
  "stCase15 b =
    (if b = 35 then tr26 else tr21)"

definition stCase16 :: "nat \<Rightarrow> trans" where
  "stCase16 b =
    (if b < 65 then (if 48 \<le> b \<and> b \<le> 57 then goto 14 else tr21) else
     if b > 90 then (if 97 \<le> b \<and> b \<le> 122 then goto 14 else tr21) else goto 14)"

definition stCase17 :: "nat \<Rightarrow> trans" where
  "stCase17 b =
    (if b = 32 then tr27 else tr21)"

definition stCase89 :: "nat \<Rightarrow> trans" where
  "stCase89 b =
    (if b = 32 then tr27 else goto 0)"

definition stCase18 :: "nat \<Rightarrow> trans" where
  "stCase18 b =
    (if b = 32 then tr22 else if b = 45 then goto 16 else if b = 58 then tr25 else
     if b = 82 then goto 19 else
     if b < 65 then (if 48 \<le> b \<and> b \<le> 57 then goto 14 else tr21) else
     if b > 90 then (if 97 \<le> b \<and> b \<le> 122 then goto 14 else tr21) else goto 14)"

definition stCase19 :: "nat \<Rightarrow> trans" where
  "stCase19 b =
    (if b = 32 then tr22 else if b = 45 then goto 16 else if b = 58 then tr25 else
     if b = 69 then goto 20 else
     if b < 65 then (if 48 \<le> b \<and> b \<le> 57 then goto 14 else tr21) else
     if b > 90 then (if 97 \<le> b \<and> b \<le> 122 then goto 14 else tr21) else goto 14)"

definition stCase20 :: "nat \<Rightarrow> trans" where
  "stCase20 b =
    (if b = 32 then tr22 else if b = 45 then goto 16 else if b = 58 then tr25 else
     if b = 65 then goto 21 else
     if b < 66 then (if 48 \<le> b \<and> b \<le> 57 then goto 14 else tr21) else
     if b > 90 then (if 97 \<le> b \<and> b \<le> 122 then goto 14 else tr21) else goto 14)"

definition stCase21 :: "nat \<Rightarrow> trans" where
  "stCase21 b =
    (if b = 32 then tr22 else if b = 45 then goto 16 else if b = 58 then tr25 else
     if b = 75 then goto 22 else
     if b < 65 then (if 48 \<le> b \<and> b \<le> 57 then goto 14 else tr21) else
     if b > 90 then (if 97 \<le> b \<and> b \<le> 122 then goto 14 else tr21) else goto 14)"

definition stCase22 :: "nat \<Rightarrow> trans" where
  "stCase22 b =
    (if b = 32 then tr22 else if b = 45 then goto 16 else if b = 58 then tr25 else
     if b = 73 then goto 23 else
     if b < 65 then (if 48 \<le> b \<and> b \<le> 57 then goto 14 else tr21) else
     if b > 90 then (if 97 \<le> b \<and> b \<le> 122 then goto 14 else tr21) else goto 14)"

definition stCase23 :: "nat \<Rightarrow> trans" where
  "stCase23 b =
    (if b = 32 then tr22 else if b = 45 then goto 16 else if b = 58 then tr25 else
     if b = 78 then goto 24 else
     if b < 65 then (if 48 \<le> b \<and> b \<le> 57 then goto 14 else tr21) else
     if b > 90 then (if 97 \<le> b \<and> b \<le> 122 then goto 14 else tr21) else goto 14)"

definition stCase24 :: "nat \<Rightarrow> trans" where
  "stCase24 b =
    (if b = 32 then tr22 else if b = 45 then goto 16 else if b = 58 then tr25 else
     if b = 71 then goto 25 else
     if b < 65 then (if 48 \<le> b \<and> b \<le> 57 then goto 14 else tr21) else
     if b > 90 then (if 97 \<le> b \<and> b \<le> 122 then goto 14 else tr21) else goto 14)"

definition stCase25 :: "nat \<Rightarrow> trans" where
  "stCase25 b =
    (if b = 32 then tr35 else if b = 45 then goto 16 else if b = 58 then tr25 else
     if b < 65 then (if 48 \<le> b \<and> b \<le> 57 then goto 14 else tr21) else
     if b > 90 then (if 97 \<le> b \<and> b \<le> 122 then goto 14 else tr21) else goto 14)"

definition stCase26 :: "nat \<Rightarrow> trans" where
  "stCase26 b =
    (if b = 35 then tr26 else if b = 67 then goto 27 else tr21)"

definition stCase27 :: "nat \<Rightarrow> trans" where
  "stCase27 b =
    (if b = 72 then goto 28 else tr21)"

definition stCase28 :: "nat \<Rightarrow> trans" where
  "stCase28 b =
    (if b = 65 then goto 29 else tr21)"

definition stCase29 :: "nat \<Rightarrow> trans" where
  "stCase29 b =
    (if b = 78 then goto 30 else tr21)"

definition stCase30 :: "nat \<Rightarrow> trans" where
  "stCase30 b =
    (if b = 71 then goto 31 else tr21)"

definition stCase31 :: "nat \<Rightarrow> trans" where
  "stCase31 b =
    (if b = 69 then goto 32 else tr21)"

definition stCase32 :: "nat \<Rightarrow> trans" where
  "stCase32 b =
    (if b = 58 then tr25 else tr21)"


text \<open>
  States 34 and 92 (the body) widen the byte with the guard \<^verbatim>\<open>blank_line_ahead\<close>:
  \<^verbatim>\<open>_widec\<close> is \<open>256 + b\<close>, and 256 more when a blank line is ahead.
\<close>

definition stCase34 :: "nat \<Rightarrow> bool \<Rightarrow> trans" where
  "stCase34 b ahead =
    (let widec = 256 + int b + (if ahead then 256 else 0)
     in if 256 \<le> widec \<and> widec \<le> 511 then tr45 else tr44)"

definition stCase92 :: "nat \<Rightarrow> bool \<Rightarrow> trans" where
  "stCase92 b ahead =
    (let widec = 256 + int b + (if ahead then 256 else 0)
     in if 256 \<le> widec \<and> widec \<le> 511 then tr110 else tr109)"

section \<open>The driver\<close>

text \<open>
  \<open>table n b ahead\<close> is the transition the block \<^verbatim>\<open>stCaseN\<close> takes on the byte
  \<open>b\<close>, in the order of the \<^verbatim>\<open>switch m.cs\<close> of the generated code. The blocks of
  the states 0, 86, 88, 94 and 96 go to \<^verbatim>\<open>st0\<close> without reading a byte.
\<close>

definition table :: "nat \<Rightarrow> nat \<Rightarrow> bool \<Rightarrow> trans" where
  "table n b ahead =
    (if n = 1 then stCase1 b else if n = 0 then goto 0 else if n = 2 then stCase2 b else
     if n = 3 then stCase3 b else if n = 4 then stCase4 b else
     if n = 5 then stCase5 b else if n = 6 then stCase6 b else
     if n = 7 then stCase7 b else if n = 8 then stCase8 b else
     if n = 85 then stCase85 b else if n = 9 then stCase9 b else
     if n = 86 then goto 0 else if n = 10 then stCase10 b else
     if n = 11 then stCase11 b else if n = 12 then stCase12 b else
     if n = 13 then stCase13 b else if n = 33 then stCase33 b else
     if n = 90 then stCase90 b else if n = 91 then stCase91 b else
     if n = 34 then stCase34 b ahead else if n = 92 then stCase92 b ahead else
     if n = 35 then stCase35 b else if n = 36 then stCase36 b else
     if n = 37 then stCase37 b else if n = 38 then stCase38 b else
     if n = 39 then stCase39 b else if n = 40 then stCase40 b else
     if n = 41 then stCase41 b else if n = 42 then stCase42 b else
     if n = 43 then stCase43 b else if n = 93 then stCase93 b else
     if n = 44 then stCase44 b else if n = 94 then goto 0 else
     if n = 45 then stCase45 b else if n = 46 then stCase46 b else
     if n = 47 then stCase47 b else if n = 48 then stCase48 b else
     if n = 49 then stCase49 b else if n = 50 then stCase50 b else
     if n = 51 then stCase51 b else if n = 52 then stCase52 b else
     if n = 53 then stCase53 b else if n = 54 then stCase54 b else
     if n = 55 then stCase55 b else if n = 56 then stCase56 b else
     if n = 57 then stCase57 b else if n = 58 then stCase58 b else
     if n = 59 then stCase59 b else if n = 60 then stCase60 b else
     if n = 61 then stCase61 b else if n = 62 then stCase62 b else
     if n = 63 then stCase63 b else if n = 64 then stCase64 b else
     if n = 65 then stCase65 b else if n = 66 then stCase66 b else
     if n = 67 then stCase67 b else if n = 68 then stCase68 b else
     if n = 69 then stCase69 b else if n = 70 then stCase70 b else
     if n = 71 then stCase71 b else if n = 72 then stCase72 b else
     if n = 73 then stCase73 b else if n = 74 then stCase74 b else
     if n = 75 then stCase75 b else if n = 76 then stCase76 b else
     if n = 77 then stCase77 b else if n = 78 then stCase78 b else
     if n = 79 then stCase79 b else if n = 80 then stCase80 b else
     if n = 95 then stCase95 b else if n = 81 then stCase81 b else
     if n = 96 then goto 0 else if n = 82 then stCase82 b else
     if n = 83 then stCase83 b else if n = 84 then stCase84 b else
     if n = 87 then stCase87 b else if n = 14 then stCase14 b else
     if n = 15 then stCase15 b else if n = 88 then goto 0 else
     if n = 16 then stCase16 b else if n = 17 then stCase17 b else
     if n = 89 then stCase89 b else if n = 18 then stCase18 b else
     if n = 19 then stCase19 b else if n = 20 then stCase20 b else
     if n = 21 then stCase21 b else if n = 22 then stCase22 b else
     if n = 23 then stCase23 b else if n = 24 then stCase24 b else
     if n = 25 then stCase25 b else if n = 26 then stCase26 b else
     if n = 27 then stCase27 b else if n = 28 then stCase28 b else
     if n = 29 then stCase29 b else if n = 30 then stCase30 b else
     if n = 31 then stCase31 b else if n = 32 then stCase32 b else goto 0)"

definition on_byte :: "frame \<Rightarrow> (nat \<Rightarrow> frame flow) \<Rightarrow> frame flow" where
  "on_byte s f = (case byte_at s (p s) of None \<Rightarrow> Panic | Some c \<Rightarrow> f (of_char c))"

text \<open>\<^verbatim>\<open>st0\<close> sets \<^verbatim>\<open>m.cs = 0\<close> and leaves through \<^verbatim>\<open>_out\<close>.\<close>

definition goto_st :: "nat \<Rightarrow> frame \<Rightarrow> frame flow" where
  "goto_st n s = (if n = 0 then Out (s\<lparr>cs := 0\<rparr>) else Goto n s)"

definition fire :: "trans \<Rightarrow> frame \<Rightarrow> frame flow" where
  "fire tr s = seq (map exec_action (fst tr) @ [goto_st (snd tr)]) s"

text \<open>
  The end-of-input actions of \<^verbatim>\<open>_testEof\<close>, by the state \<^verbatim>\<open>m.cs\<close>; a state of no
  case runs none. Where a \<^verbatim>\<open>case\<close> lists consecutive states (36 to 39, 48 to 75, 14 to 32)
  the list is written as a range.
\<close>

definition eof_actions :: "nat \<Rightarrow> action list" where
  "eof_actions n =
    (if n \<in> {2, 3, 4, 13} \<or> (36 \<le> n \<and> n \<le> 39) \<or> (48 \<le> n \<and> n \<le> 75) then [Err_type]
     else if n \<in> {5, 6, 12, 40, 41, 47, 77, 78, 84} then [Err_colon]
     else if n \<in> {7, 42, 79} then [Err_description_init]
     else if n \<in> {8, 43, 80} then [Err_description]
     else if n \<in> {9, 44, 81} then [Err_begin_blank_line]
     else if n \<in> {85, 93, 95} then [Set_description]
     else if n = 90 then [Set_footer]
     else if n = 92 then [Append_body]
     else if 14 \<le> n \<and> n \<le> 32 then [Rewind]
     else if n \<in> {1, 35, 76} then [Err_empty, Err_type]
     else if n \<in> {10, 11, 45, 46, 82, 83}
     then [Err_malformed_scope, Err_malformed_scope_closing]
     else if n = 34 then [Append_body, Start_trailer_parsing]
     else [])"

definition testEof :: "frame \<Rightarrow> frame flow" where
  "testEof s =
     (if p s = eof s then
        (case seq (map exec_action (eof_actions (cs s))) s of Next s' \<Rightarrow> Out s' | r \<Rightarrow> r)
      else Out s)"

text \<open>
  The block \<^verbatim>\<open>stCaseN\<close>: the from-state action of the states 5, 40 and 77
  (\<^verbatim>\<open>set_type\<close>), the byte under the cursor, the guard of the body states, and the
  transition. A state outside the \<^verbatim>\<open>switch\<close> falls to \<^verbatim>\<open>stOut\<close>, which is
  \<^verbatim>\<open>_testEof2\<close>.
\<close>

definition stCase :: "nat \<Rightarrow> frame \<Rightarrow> frame flow" where
  "stCase n s =
     (if n \<in> {0, 86, 88, 94, 96} then fire (goto 0) s
      else if n \<in> {5, 40, 77} then
        seq [set_type, \<lambda>s1. on_byte s1 (\<lambda>b. fire (table n b False) s1)] s
      else if n \<in> {34, 92} then
        on_byte s (\<lambda>b. case blank_line_ahead s of
                          None \<Rightarrow> Panic
                        | Some ahead \<Rightarrow> fire (table n b ahead) s)
      else if n \<le> 96 then on_byte s (\<lambda>b. fire (table n b False) s)
      else testEof (s\<lparr>cs := 2\<rparr>))"

text \<open>
  The label \<^verbatim>\<open>stN\<close>: the to-state action \<^verbatim>\<open>check_early_exit\<close> of the states that
  have it, then \<^verbatim>\<open>m.p++\<close>. The generated code stores \<^verbatim>\<open>m.cs\<close> only when it leaves the
  loop; here \<open>cs\<close> is the state of the label the control is at, which is the stored
  value whenever the code stores one.
\<close>

definition early_exit_states :: "nat set" where
  "early_exit_states = {5, 6, 7, 12, 40, 41, 42, 47, 77, 78, 79, 84}"

definition st :: "nat \<Rightarrow> frame \<Rightarrow> frame flow" where
  "st n s =
     (case (if n \<in> early_exit_states then check_early_exit s else Next s) of
        Next s1 \<Rightarrow> Next (s1\<lparr>p := p s1 + 1, cs := n\<rparr>)
      | r \<Rightarrow> r)"

text \<open>
  One round of the loop: at the end of the input the end-of-input actions, otherwise
  the block of the current state; a jump to \<^verbatim>\<open>stN\<close> moves the cursor and the next
  round goes on from there.
\<close>

definition step :: "frame \<Rightarrow> frame flow" where
  "step s =
     (case (if p s = pe s then testEof s else stCase (cs s) s) of
        Goto n s' \<Rightarrow> st n s'
      | r \<Rightarrow> r)"

text \<open>
  The loop runs until a round leaves or panics. \<open>exec s\<close> is \<open>None\<close> when it
  runs for ever from \<open>s\<close>, \<open>Some (Out s')\<close> when it leaves with \<open>s'\<close> and
  \<open>Some Panic\<close> when it panics.
\<close>

partial_function (option) exec :: "frame \<Rightarrow> frame flow option" where
  "exec s = (case step s of Next s' \<Rightarrow> exec s' | r \<Rightarrow> Some r)"

section \<open>Parse\<close>

definition firstFinal :: nat where
  "firstFinal = 85"

definition enMain :: nat where
  "enMain = 1"

definition enConventionalTypesMain :: nat where
  "enConventionalTypesMain = 35"

definition enFreeFormTypesMain :: nat where
  "enFreeFormTypesMain = 76"

definition start_state :: "TypeConfig \<Rightarrow> nat" where
  "start_state t =
     (case t of
        TypesFreeForm \<Rightarrow> enFreeFormTypesMain
      | TypesConventional \<Rightarrow> enConventionalTypesMain
      | TypesMinimal \<Rightarrow> enMain)"

text \<open>
  \<^verbatim>\<open>NewMachine\<close> with no option: every field has Go's zero value. The options
  \<^verbatim>\<open>WithBestEffort\<close> and \<^verbatim>\<open>WithTypes\<close> set their field.
\<close>

definition NewMachine :: machine where
  "NewMachine =
     \<lparr>data = [], cs = 0, p = 0, pe = 0, eof = 0, pb = 0, err = None, bestEffort = False,
      typeConfig = TypesMinimal, logger = None, currentFooterKey = [],
      countNewlines = 0, lastNewline = 0\<rparr>"

definition WithBestEffort :: "machine \<Rightarrow> machine" where
  "WithBestEffort m = m\<lparr>bestEffort := True\<rparr>"

definition WithTypes :: "TypeConfig \<Rightarrow> machine \<Rightarrow> machine" where
  "WithTypes t m = m\<lparr>typeConfig := t\<rparr>"

text \<open>
  The head of \<^verbatim>\<open>Parse\<close>: the assignments to the machine, the fresh
  \<^verbatim>\<open>output\<close>, and the entry state of the dialect. \<^verbatim>\<open>m.lastNewline\<close> is not
  assigned there and keeps the value the machine came with.
\<close>

definition empty_commit :: conventionalCommit where
  "empty_commit =
     \<lparr>c_type = [], descr = [], scope = [], exclamation = False, body = [], footers = []\<rparr>"

definition init :: "machine \<Rightarrow> string \<Rightarrow> frame" where
  "init m input =
     \<lparr>data = input, cs = start_state (typeConfig m), p = 0, pe = int (length input),
      eof = int (length input), pb = 0, err = None, bestEffort = bestEffort m,
      typeConfig = typeConfig m, logger = logger m, currentFooterKey = [],
      countNewlines = 0, lastNewline = lastNewline m, outp = empty_commit\<rparr>"

definition machine_of :: "frame \<Rightarrow> machine" where
  "machine_of s =
     \<lparr>data = data s, cs = cs s, p = p s, pe = pe s, eof = eof s, pb = pb s, err = err s,
      bestEffort = bestEffort s, typeConfig = typeConfig s, logger = logger s,
      currentFooterKey = currentFooterKey s, countNewlines = countNewlines s,
      lastNewline = lastNewline s\<rparr>"

text \<open>
  What a call of \<^verbatim>\<open>Parse\<close> gives: the machine as the call leaves it and the pair
  the call returns, or a panic.
\<close>

datatype result =
    Returned machine "conventionalCommit option" "string option"
  | Panicked

definition finish :: "frame \<Rightarrow> result" where
  "finish s =
     (if cs s < firstFinal then
        (if bestEffort s \<and> minimal (outp s)
         then Returned (machine_of s) (Some (export (outp s))) (err s)
         else Returned (machine_of s) None (err s))
      else Returned (machine_of s) (Some (export (outp s))) None)"

definition Parse :: "machine \<Rightarrow> string \<Rightarrow> result option" where
  "Parse m input =
     (case exec (init m input) of
        None \<Rightarrow> None
      | Some (Out s) \<Rightarrow> Some (finish s)
      | Some _ \<Rightarrow> Some Panicked)"

text \<open>The pair \<^verbatim>\<open>Parse\<close> returns, without the machine.\<close>

definition returned :: "result option \<Rightarrow> (conventionalCommit option \<times> string option) option" where
  "returned r = (case r of Some (Returned m c e) \<Rightarrow> Some (c, e) | _ \<Rightarrow> None)"

declare exec.simps [code]

section \<open>Runs on given inputs\<close>

text \<open>
  C3, as the spec states it: for the input
  \<^verbatim>\<open>fix: bug\n\nFirst paragraph.\n\nSecond paragraph.\n\<close> the parser of the minimal
  dialect succeeds with type \<open>fix\<close>, description \<open>bug\<close>, no footers and the body
  \<^verbatim>\<open>First paragraph.\n\nSecond paragraph.\<close> without the last newline. The code
  does not return that record: the body sub-machine takes every byte up to a blank line
  or the end of the input, the last newline included, and nothing trims it.
\<close>

theorem C3_counterexample:
  "returned (Parse NewMachine
      ''fix: bug\<newline>\<newline>First paragraph.\<newline>\<newline>Second paragraph.\<newline>'') \<noteq>
   Some (Some \<lparr>c_type = ''fix'', descr = ''bug'', scope = [], exclamation = False,
                 body = ''First paragraph.\<newline>\<newline>Second paragraph.'', footers = []\<rparr>,
         None)"
  by code_simp

text \<open>
  C3, amended: for that input the parser of the minimal dialect succeeds with type
  \<open>fix\<close>, description \<open>bug\<close>, no scope, no footers, and the body
  \<^verbatim>\<open>First paragraph.\n\nSecond paragraph.\n\<close>, byte for byte, the final newline of
  the input included.
\<close>

theorem C3_body_with_final_newline:
  "returned (Parse NewMachine
      ''fix: bug\<newline>\<newline>First paragraph.\<newline>\<newline>Second paragraph.\<newline>'') =
   Some (Some \<lparr>c_type = ''fix'', descr = ''bug'', scope = [], exclamation = False,
                 body = ''First paragraph.\<newline>\<newline>Second paragraph.\<newline>'', footers = []\<rparr>,
         None)"
  by code_simp

text \<open>
  C1, at the input \<^verbatim>\<open>fix: x\n\nfoo: \<close>: the trailer token and its separator are
  read, the input ends where the value should start, and state 33 has no end-of-input
  action. The machine stops in a state below \<open>firstFinal\<close> with \<^verbatim>\<open>m.err\<close> still
  \<^verbatim>\<open>nil\<close>, so \<^verbatim>\<open>Parse\<close> returns neither a record nor an error.
\<close>

theorem C1_no_record_and_no_error:
  "returned (Parse NewMachine ''fix: x\<newline>\<newline>foo: '') = Some (None, None)"
  by code_simp


end
